theory Spec2Isabelle
  imports Complex_Main "HOL-Library.Signed_Division"
begin

section \<open>Go integers\<close>

text \<open>
  The source is Go. Its \<open>int\<close> is a 64-bit two's complement integer, \<open>/\<close> and \<open>%\<close>
  truncate towards zero, and \<open>+\<close>, \<open>-\<close> wrap around. Values are modelled as
  \<^typ>\<open>int\<close>; \<open>/\<close> is \<open>sdiv\<close> and \<open>%\<close> is \<open>smod\<close> (truncating, the sign of the
  remainder is the sign of the dividend). Where an operand comes from the caller
  unchecked (a number of years, months or days to add), the wrap-around is written
  out with \<open>wrap64\<close>. The calendar conversions are stated on a bounded range of years
  on which no intermediate value leaves the 64-bit range, so they are written with
  plain integer arithmetic.
\<close>

definition wrap64 :: "int \<Rightarrow> int" where
  "wrap64 x = (x + 9223372036854775808) mod 18446744073709551616 - 9223372036854775808"

definition int64 :: "int \<Rightarrow> bool" where
  "int64 x = (- 9223372036854775808 \<le> x \<and> x \<le> 9223372036854775807)"

definition boolToInt :: "bool \<Rightarrow> int" where
  "boolToInt b = (if b then 1 else 0)"

section \<open>Calendar tables\<close>

type_synonym Month = int

definition gregorianDaysInMonth :: "int list" where
  "gregorianDaysInMonth = [31, 28, 31, 30, 31, 30, 31, 31, 30, 31, 30, 31]"

definition jalaliDaysInMonth :: "int list" where
  "jalaliDaysInMonth = [31, 31, 31, 31, 31, 31, 30, 30, 30, 30, 30, 29]"

definition Farvardin :: Month where "Farvardin = 1"
definition Shahrivar :: Month where "Shahrivar = 6"
definition Bahman :: Month where "Bahman = 11"
definition Esfand :: Month where "Esfand = 12"

section \<open>Leap years and month lengths\<close>

definition leapYearsRemainders :: "int \<rightharpoonup> bool" where
  "leapYearsRemainders =
     map_of [(1, True), (5, True), (9, True), (13, True),
             (17, True), (22, True), (26, True), (30, True)]"

definition isLeapJalaliYear :: "int \<Rightarrow> bool" where
  "isLeapJalaliYear year =
     (let remainder = year smod 33
      in case leapYearsRemainders remainder of None \<Rightarrow> False | Some _ \<Rightarrow> True)"

definition daysInMonth :: "int \<Rightarrow> Month \<Rightarrow> int" where
  "daysInMonth year month =
     (if month < Farvardin \<or> month > Esfand then 0
      else if month \<le> Shahrivar then 31
      else if month \<le> Bahman then 30
      else if isLeapJalaliYear year then 30
      else 29)"

definition isValidJalaliDate :: "int \<Rightarrow> int \<Rightarrow> int \<Rightarrow> bool" where
  "isValidJalaliDate year month day =
     (if year < 1 \<or> month < 1 \<or> month > 12 \<or> day < 1 then False
      else if day > daysInMonth year month then False
      else True)"

section \<open>The Jalali date and time value\<close>

text \<open>
  A \<open>*time.Location\<close> is a pointer that may be nil; the zone it points to has a name
  and transition rules that only Go's time package reads. The fields of \<open>JalaliTime\<close>
  carry the names of the accessor methods (\<open>Year\<close>, \<open>Month\<close>, ...), the lower-case
  names being the parameter names of the functions below.
\<close>

record Location =
  locName :: string
  locRules :: "(int \<times> int) list"

record JalaliTime =
  Year :: int
  Month :: Month
  Day :: int
  Hour :: int
  Minute :: int
  Second :: int
  Nsec :: int
  Loc :: "Location option"

record JalaliDuration =
  Years :: int
  Months :: int
  Days :: int

text \<open>The zero value \<open>JalaliTime{}\<close>: every number 0 and a nil location.\<close>

definition zeroJalaliTime :: JalaliTime where
  "zeroJalaliTime =
     \<lparr>Year = 0, Month = 0, Day = 0, Hour = 0, Minute = 0, Second = 0, Nsec = 0, Loc = None\<rparr>"

definition IsZero :: "JalaliTime \<Rightarrow> bool" where
  "IsZero j =
     (Year j = 0 \<and> Month j = 0 \<and> Day j = 0 \<and> Hour j = 0 \<and> Minute j = 0 \<and> Second j = 0
      \<and> Nsec j = 0)"

definition IsLeapJalaliYear :: "JalaliTime \<Rightarrow> bool" where
  "IsLeapJalaliYear j = isLeapJalaliYear (Year j)"

section \<open>Field-based arithmetic\<close>

definition AddYears :: "JalaliTime \<Rightarrow> int \<Rightarrow> JalaliTime" where
  "AddYears j n =
     (let newYear = wrap64 (Year j + n)
      in if newYear < 1 then zeroJalaliTime
         else
           let j1 = (if IsLeapJalaliYear j \<and> Month j = 12 \<and> Day j = 30
                     then j\<lparr>Day := 29\<rparr> else j)
           in \<lparr>Year = newYear, Month = Month j1, Day = Day j1, Hour = Hour j1,
               Minute = Minute j1, Second = Second j1, Nsec = Nsec j1, Loc = Loc j1\<rparr>)"

definition AddMonths :: "JalaliTime \<Rightarrow> int \<Rightarrow> JalaliTime" where
  "AddMonths j n =
     (let years = n sdiv 12;
          months = n smod 12;
          newYear = wrap64 (Year j + years);
          newMonth = wrap64 (Month j + months);
          (newYear, newMonth) =
             (if newMonth > 12 then (wrap64 (newYear + 1), newMonth - 12)
              else (newYear, newMonth));
          j1 = (if Day j > daysInMonth newYear newMonth
                then j\<lparr>Day := daysInMonth newYear newMonth\<rparr> else j)
      in \<lparr>Year = newYear, Month = newMonth, Day = Day j1, Hour = Hour j1,
          Minute = Minute j1, Second = Second j1, Nsec = Nsec j1, Loc = Loc j1\<rparr>)"

text \<open>
  The four loops of \<open>AddJalaliDuration\<close>, each on the variables it changes. The year
  is only incremented or decremented (with wrap-around); a month is compared with 12 or
  1 before it is reduced or raised, and a day with the month length before it is
  reduced or raised, so these steps stay in range.
\<close>

function carryMonths :: "int \<Rightarrow> int \<Rightarrow> int \<times> int" where
  "carryMonths newYear newMonth =
     (if newMonth > 12 then carryMonths (wrap64 (newYear + 1)) (newMonth - 12)
      else (newYear, newMonth))"
  by pat_completeness auto
termination
  by (relation "measure (\<lambda>(newYear, newMonth). nat newMonth)") auto

function borrowMonths :: "int \<Rightarrow> int \<Rightarrow> int \<times> int" where
  "borrowMonths newYear newMonth =
     (if newMonth < 1 then borrowMonths (wrap64 (newYear - 1)) (newMonth + 12)
      else (newYear, newMonth))"
  by pat_completeness auto
termination
  by (relation "measure (\<lambda>(newYear, newMonth). nat (1 - newMonth))") auto

function dayForward :: "int \<Rightarrow> int \<Rightarrow> int \<Rightarrow> int \<Rightarrow> int \<times> int \<times> int" where
  "dayForward newYear newMonth newDay maxDays =
     (if newDay > maxDays then
        (let newDay1 = newDay - maxDays;
             newMonth1 = newMonth + 1;
             (newYear2, newMonth2) =
                (if newMonth1 > 12 then (wrap64 (newYear + 1), 1) else (newYear, newMonth1))
         in dayForward newYear2 newMonth2 newDay1 (daysInMonth newYear2 newMonth2))
      else (newYear, newMonth, newDay))"
  by pat_completeness auto
termination
proof (relation "measures
    [\<lambda>(newYear, newMonth, newDay, maxDays).
        if maxDays = daysInMonth newYear newMonth then 0 else 1,
     \<lambda>(newYear, newMonth, newDay, maxDays). if newMonth < 1 then nat (1 - newMonth) else if newMonth > 12 then 1 else 0,
     \<lambda>(newYear, newMonth, newDay, maxDays). nat newDay]", goal_cases)
  case 1
  show ?case by simp
next
  case (2 newYear newMonth newDay maxDays newDay1 newMonth1 p newYear2 newMonth2)
  then show ?case
    by (auto simp add: daysInMonth_def Farvardin_def Shahrivar_def Bahman_def Esfand_def
        split: if_splits)
qed

function dayBackward :: "int \<Rightarrow> int \<Rightarrow> int \<Rightarrow> int \<times> int \<times> int" where
  "dayBackward newYear newMonth newDay =
     (if newDay < 1 then
        (let newMonth1 = newMonth - 1;
             (newYear2, newMonth2) =
                (if newMonth1 < 1 then (wrap64 (newYear - 1), 12) else (newYear, newMonth1));
             maxDays = daysInMonth newYear2 newMonth2
         in dayBackward newYear2 newMonth2 (newDay + maxDays))
      else (newYear, newMonth, newDay))"
  by pat_completeness auto
termination
proof (relation "measures
    [\<lambda>(newYear, newMonth, newDay). nat (newMonth - 12),
     \<lambda>(newYear, newMonth, newDay). nat (1 - newDay)]", goal_cases)
  case 1
  show ?case by simp
next
  case (2 newYear newMonth newDay newMonth1 p newYear2 newMonth2 maxDays)
  then show ?case
    by (auto simp add: daysInMonth_def Farvardin_def Shahrivar_def Bahman_def Esfand_def
        split: if_splits)
qed

definition AddJalaliDuration :: "JalaliTime \<Rightarrow> JalaliDuration \<Rightarrow> JalaliTime" where
  "AddJalaliDuration j d =
     (let newYear = wrap64 (Year j + Years d);
          newMonth = wrap64 (Month j + Months d);
          newDay = wrap64 (Day j + Days d);
          (newYear, newMonth) = carryMonths newYear newMonth;
          (newYear, newMonth) = borrowMonths newYear newMonth;
          maxDays = daysInMonth newYear newMonth;
          (newYear, newMonth, newDay) = dayForward newYear newMonth newDay maxDays;
          (newYear, newMonth, newDay) = dayBackward newYear newMonth newDay
      in \<lparr>Year = newYear, Month = newMonth, Day = newDay, Hour = Hour j,
          Minute = Minute j, Second = Second j, Nsec = Nsec j, Loc = Loc j\<rparr>)"

definition SubJalaliDuration :: "JalaliTime \<Rightarrow> JalaliDuration \<Rightarrow> JalaliTime" where
  "SubJalaliDuration j d =
     (let negativeDuration =
            \<lparr>Years = wrap64 (- Years d), Months = wrap64 (- Months d),
             Days = wrap64 (- Days d)\<rparr>
      in AddJalaliDuration j negativeDuration)"

declare carryMonths.simps [simp del] borrowMonths.simps [simp del]
  dayForward.simps [simp del] dayBackward.simps [simp del]

text \<open>
  The invariant of the data model: the month is one of the twelve and the day exists
  in that month of that year.
\<close>

definition dateInvariant :: "JalaliTime \<Rightarrow> bool" where
  "dateInvariant j =
     (1 \<le> Month j \<and> Month j \<le> 12 \<and> 1 \<le> Day j \<and> Day j \<le> daysInMonth (Year j) (Month j))"

section \<open>Conversion between the Gregorian and the Jalali calendar\<close>

text \<open>
  Both conversions count days from 1 January 1600. They index the month tables in
  loops; an index outside a table is a run-time panic in Go, and the result
  \<open>None\<close> here. The loop index only counts up from 0, so it is a natural number.
\<close>

function sumMonths :: "int list \<Rightarrow> nat \<Rightarrow> int \<Rightarrow> int \<Rightarrow> int option" where
  "sumMonths tbl i n dayNo =
     (if int i < n then
        (if i < length tbl then sumMonths tbl (i + 1) n (dayNo + tbl ! i) else None)
      else Some dayNo)"
  by pat_completeness auto
termination
  by (relation "measure (\<lambda>(tbl, i, n, dayNo). nat (n - int i))") auto

function jalaliMonthLoop :: "nat \<Rightarrow> int \<Rightarrow> nat \<times> int" where
  "jalaliMonthLoop i jDayNo =
     (if i < 11 \<and> jDayNo \<ge> jalaliDaysInMonth ! i
      then jalaliMonthLoop (i + 1) (jDayNo - jalaliDaysInMonth ! i)
      else (i, jDayNo))"
  by pat_completeness auto
termination
  by (relation "measure (\<lambda>(i, jDayNo). 11 - i)") auto

function gregorianMonthLoop :: "nat \<Rightarrow> int \<Rightarrow> int \<Rightarrow> (nat \<times> int) option" where
  "gregorianMonthLoop i leap gDayNo =
     (if i < length gregorianDaysInMonth then
        (if gDayNo \<ge> gregorianDaysInMonth ! i + boolToInt (i = 1 \<and> leap \<noteq> 0)
         then gregorianMonthLoop (i + 1) leap
                (gDayNo - (gregorianDaysInMonth ! i + boolToInt (i = 1 \<and> leap \<noteq> 0)))
         else Some (i, gDayNo))
      else None)"
  by pat_completeness auto
termination
  by (relation "measure (\<lambda>(i, leap, gDayNo). length gregorianDaysInMonth - i)") auto

definition gregorianToJalali :: "int \<Rightarrow> int \<Rightarrow> int \<Rightarrow> (int \<times> Month \<times> int) option" where
  "gregorianToJalali gYear gMonth gDay =
     (let gy = gYear - 1600;
          gm = gMonth - 1;
          gd = gDay - 1;
          gDayNo = 365 * gy + (gy + 3) sdiv 4 - (gy + 99) sdiv 100 + (gy + 399) sdiv 400
      in case sumMonths gregorianDaysInMonth 0 gm gDayNo of
           None \<Rightarrow> None
         | Some gDayNo \<Rightarrow>
             let gDayNo = (if gm > 1 \<and> ((gy smod 4 = 0 \<and> gy smod 100 \<noteq> 0) \<or> gy smod 400 = 0)
                           then gDayNo + 1 else gDayNo);
                 gDayNo = gDayNo + gd;
                 jDayNo = gDayNo - 79;
                 jNp = jDayNo sdiv 12053;
                 jDayNo = jDayNo smod 12053;
                 jYear = 979 + 33 * jNp + 4 * (jDayNo sdiv 1461);
                 jDayNo = jDayNo smod 1461;
                 (jYear, jDayNo) =
                    (if jDayNo \<ge> 366
                     then (jYear + (jDayNo - 1) sdiv 365, (jDayNo - 1) smod 365)
                     else (jYear, jDayNo));
                 (i, jDayNo) = jalaliMonthLoop 0 jDayNo
             in Some (jYear, int i + 1, jDayNo + 1))"

definition jalaliToGregorian :: "int \<Rightarrow> Month \<Rightarrow> int \<Rightarrow> (int \<times> int \<times> int) option" where
  "jalaliToGregorian jYear jMonth jDay =
     (let jy = jYear - 979;
          jm = jMonth - 1;
          jd = jDay - 1;
          jDayNo = 365 * jy + (jy sdiv 33) * 8 + (jy smod 33 + 3) sdiv 4
      in case sumMonths jalaliDaysInMonth 0 jm jDayNo of
           None \<Rightarrow> None
         | Some jDayNo \<Rightarrow>
             let jDayNo = jDayNo + jd;
                 gDayNo = jDayNo + 79;
                 gy = 1600 + 400 * (gDayNo sdiv 146097);
                 gDayNo = gDayNo smod 146097;
                 leap = 1;
                 (gy, gDayNo, leap) =
                    (if gDayNo \<ge> 36525 then
                       (let gDayNo = gDayNo - 1;
                            gy = gy + 100 * (gDayNo sdiv 36524);
                            gDayNo = gDayNo smod 36524
                        in if gDayNo \<ge> 365 then (gy, gDayNo + 1, leap) else (gy, gDayNo, 0))
                     else (gy, gDayNo, leap));
                 gy = gy + 4 * (gDayNo sdiv 1461);
                 gDayNo = gDayNo smod 1461;
                 (gy, gDayNo, leap) =
                    (if gDayNo \<ge> 366 then
                       (let leap = 0;
                            gDayNo = gDayNo - 1;
                            gy = gy + gDayNo sdiv 365;
                            gDayNo = gDayNo smod 365
                        in (gy, gDayNo, leap))
                     else (gy, gDayNo, leap))
             in case gregorianMonthLoop 0 leap gDayNo of
                  None \<Rightarrow> None
                | Some (i, gDayNo) \<Rightarrow> Some (gy, int i + 1, gDayNo + 1))"

declare sumMonths.simps [simp del] jalaliMonthLoop.simps [simp del]
  gregorianMonthLoop.simps [simp del]

text \<open>
  A date of the Gregorian calendar with the leap rule of that calendar (every fourth
  year, except the centuries not divisible by 400). The source leaves this to Go's time
  package; it is needed to say which triples the round trip is about.
\<close>

definition isLeapGregorianYear :: "int \<Rightarrow> bool" where
  "isLeapGregorianYear gYear = ((gYear mod 4 = 0 \<and> gYear mod 100 \<noteq> 0) \<or> gYear mod 400 = 0)"

definition isValidGregorianDate :: "int \<Rightarrow> int \<Rightarrow> int \<Rightarrow> bool" where
  "isValidGregorianDate gYear gMonth gDay =
     (1 \<le> gMonth \<and> gMonth \<le> 12 \<and> 1 \<le> gDay
      \<and> gDay \<le> gregorianDaysInMonth ! nat (gMonth - 1)
                 + boolToInt (gMonth = 2 \<and> isLeapGregorianYear gYear))"

section \<open>The Julian day number\<close>

text \<open>
  \<open>julianDayNumber\<close> computes in \<open>float64\<close>. The rounding of each floating-point
  operation is the parameter \<open>rnd\<close>: the operation is the exact one on the reals
  followed by \<open>rnd\<close>. Of \<open>rnd\<close> the properties below use only that it is monotone and
  leaves every number unchanged that binary64 represents exactly (here: an integer of
  magnitude below \<open>2 ^ 53\<close> divided by a power of two), which holds for rounding to
  nearest. The constants 365.25 and 1524.5 and the divisors are exact in binary64;
  30.6001 is not and is rounded. An error of the source is a formatted message that
  names the field and its value; here it is a constructor with that value.
\<close>

datatype jdnError =
    YearTooEarly int
  | InvalidMonth int
  | InvalidDay int
  | InvalidHour int
  | InvalidMinute int
  | InvalidSecond int
  | InvalidNanosecond int

definition julianDayNumber ::
  "(real \<Rightarrow> real) \<Rightarrow> int \<Rightarrow> int \<Rightarrow> int \<Rightarrow> int \<Rightarrow> int \<Rightarrow> int \<Rightarrow> int \<Rightarrow> jdnError + real" where
  "julianDayNumber rnd year month day hour minute second nanosecond =
     (if year < - 4712 then Inl (YearTooEarly year)
      else if month < 1 \<or> month > 12 then Inl (InvalidMonth month)
      else if day < 1 \<or> day > 31 then Inl (InvalidDay day)
      else if hour < 0 \<or> hour > 23 then Inl (InvalidHour hour)
      else if minute < 0 \<or> minute > 59 then Inl (InvalidMinute minute)
      else if second < 0 \<or> second > 59 then Inl (InvalidSecond second)
      else if nanosecond < 0 \<or> nanosecond > 999999999 then Inl (InvalidNanosecond nanosecond)
      else
        let (year, month) = (if month \<le> 2 then (year - 1, month + 12) else (year, month));
            float64 = (\<lambda>i. rnd (real_of_int i));
            Floor = (\<lambda>x. real_of_int \<lfloor>x\<rfloor>);
            a = Floor (rnd (float64 year / 100));
            b = rnd (rnd (2 - a) + Floor (rnd (a / 4)));
            jdn = rnd (rnd (rnd (rnd (Floor (rnd (365.25 * rnd (float64 year + 4716)))
                                      + Floor (rnd (rnd 30.6001 * rnd (float64 month + 1))))
                                 + float64 day)
                            + b)
                       - 1524.5);
            fraction = rnd (rnd (rnd (rnd (float64 hour / 24) + rnd (float64 minute / 1440))
                                 + rnd (float64 second / 86400))
                            + rnd (float64 nanosecond / 86400000000000));
            jd = rnd (jdn + fraction)
        in Inr jd)"

definition binary64 :: "real \<Rightarrow> bool" where
  "binary64 x = (\<exists>k e. \<bar>k\<bar> < 2 ^ 53 \<and> e \<le> 1074 \<and> x = real_of_int k / 2 ^ e)"

definition roundsToBinary64 :: "(real \<Rightarrow> real) \<Rightarrow> bool" where
  "roundsToBinary64 rnd = (mono rnd \<and> (\<forall>x. binary64 x \<longrightarrow> rnd x = x))"

section \<open>Go's time package\<close>

text \<open>
  The functions of Go's \<open>time\<close> package that the source calls are parameters of the
  model, collected in a record: \<open>time.Local\<close>, and what \<open>time.Date\<close> of seven fields
  and a (non-nil) location gives through \<open>Weekday\<close>, \<open>Zone\<close>, \<open>Unix\<close>,
  \<open>UTC().UnixNano\<close>, and through \<open>AddDate\<close> read back by \<open>Year\<close>, \<open>Month\<close>,
  \<open>Day\<close>, \<open>Hour\<close>, \<open>Minute\<close>, \<open>Second\<close>, \<open>Nanosecond\<close> and \<open>Location\<close>.
  \<open>time.Date\<close> panics on a nil location; a panic is the result \<open>None\<close>.
\<close>

type_synonym civil = "int \<times> int \<times> int \<times> int \<times> int \<times> int \<times> int"

record TimeLib =
  Local :: Location
  DateWeekday :: "civil \<Rightarrow> Location \<Rightarrow> int"
  DateZone :: "civil \<Rightarrow> Location \<Rightarrow> string \<times> int"
  DateUnix :: "civil \<Rightarrow> Location \<Rightarrow> int"
  DateUnixNano :: "civil \<Rightarrow> Location \<Rightarrow> int"
  DateAddDate :: "civil \<Rightarrow> Location \<Rightarrow> int \<Rightarrow> int \<Rightarrow> int \<Rightarrow> civil \<times> Location"

text \<open>\<open>(*Location).String\<close>: the name of the zone; a nil location reads as UTC.\<close>

definition locString :: "Location option \<Rightarrow> string" where
  "locString l = (case l of None \<Rightarrow> ''UTC'' | Some loc \<Rightarrow> locName loc)"

definition timeDate :: "(civil \<Rightarrow> Location \<Rightarrow> 'a) \<Rightarrow> civil \<Rightarrow> Location option \<Rightarrow> 'a option" where
  "timeDate f c l = (case l of None \<Rightarrow> None | Some loc \<Rightarrow> Some (f c loc))"

section \<open>Conversion of a value, instants and comparison\<close>

definition ToJalali :: "civil \<times> Location \<Rightarrow> JalaliTime option" where
  "ToJalali t =
     (case t of ((gy, gm, gd, hour, minute, sec, nsec), loc) \<Rightarrow>
        (case gregorianToJalali gy gm gd of
           None \<Rightarrow> None
         | Some (jy, jm, jd) \<Rightarrow>
             Some \<lparr>Year = jy, Month = jm, Day = jd, Hour = hour, Minute = minute,
                   Second = sec, Nsec = nsec, Loc = Some loc\<rparr>))"

text \<open>
  \<open>ToGregorian\<close> builds \<open>time.Date\<close> of the converted date, with \<open>time.Local\<close> for a
  nil location; the model returns the arguments of that call.
\<close>

definition ToGregorian :: "TimeLib \<Rightarrow> JalaliTime \<Rightarrow> (civil \<times> Location) option" where
  "ToGregorian lib j =
     (case jalaliToGregorian (Year j) (Month j) (Day j) of
        None \<Rightarrow> None
      | Some (gYear, gMonth, gDay) \<Rightarrow>
          let loc = (case Loc j of None \<Rightarrow> Local lib | Some l \<Rightarrow> l)
          in Some ((gYear, gMonth, gDay, Hour j, Minute j, Second j, Nsec j), loc))"

definition Weekday :: "TimeLib \<Rightarrow> JalaliTime \<Rightarrow> int option" where
  "Weekday lib j =
     (case jalaliToGregorian (Year j) (Month j) (Day j) of
        None \<Rightarrow> None
      | Some (gYear, gMonth, gDay) \<Rightarrow>
          (case timeDate (DateWeekday lib)
                  (gYear, gMonth, gDay, Hour j, Minute j, Second j, Nsec j) (Loc j) of
             None \<Rightarrow> None
           | Some weekday \<Rightarrow> if 0 \<le> weekday \<and> weekday \<le> 6 then Some weekday else None))"

definition Zone :: "TimeLib \<Rightarrow> JalaliTime \<Rightarrow> (string \<times> int) option" where
  "Zone lib j =
     (case ToGregorian lib j of
        None \<Rightarrow> None
      | Some (c, loc) \<Rightarrow> Some (DateZone lib c loc))"

definition Unix :: "TimeLib \<Rightarrow> JalaliTime \<Rightarrow> int option" where
  "Unix lib j =
     (case jalaliToGregorian (Year j) (Month j) (Day j) of
        None \<Rightarrow> None
      | Some (gYear, gMonth, gDay) \<Rightarrow>
          timeDate (DateUnix lib)
            (gYear, gMonth, gDay, Hour j, Minute j, Second j, Nsec j) (Loc j))"

definition UnixNano :: "TimeLib \<Rightarrow> JalaliTime \<Rightarrow> int option" where
  "UnixNano lib j =
     (case ToGregorian lib j of
        None \<Rightarrow> None
      | Some (c, loc) \<Rightarrow> Some (DateUnixNano lib c loc))"

definition After :: "TimeLib \<Rightarrow> JalaliTime \<Rightarrow> JalaliTime \<Rightarrow> bool option" where
  "After lib j u =
     (case UnixNano lib j of
        None \<Rightarrow> None
      | Some a \<Rightarrow> (case UnixNano lib u of None \<Rightarrow> None | Some b \<Rightarrow> Some (a > b)))"

definition Before :: "TimeLib \<Rightarrow> JalaliTime \<Rightarrow> JalaliTime \<Rightarrow> bool option" where
  "Before lib j u =
     (case UnixNano lib j of
        None \<Rightarrow> None
      | Some a \<Rightarrow> (case UnixNano lib u of None \<Rightarrow> None | Some b \<Rightarrow> Some (a < b)))"

definition Equal :: "JalaliTime \<Rightarrow> JalaliTime \<Rightarrow> bool" where
  "Equal j u =
     (Year j = Year u \<and> Month j = Month u \<and> Day j = Day u \<and> Hour j = Hour u
      \<and> Minute j = Minute u \<and> Second j = Second u \<and> Nsec j = Nsec u
      \<and> locString (Loc j) = locString (Loc u))"

definition AddDays :: "TimeLib \<Rightarrow> JalaliTime \<Rightarrow> int \<Rightarrow> JalaliTime option" where
  "AddDays lib j n =
     (case jalaliToGregorian (Year j) (Month j) (Day j) of
        None \<Rightarrow> None
      | Some (gYear, gMonth, gDay) \<Rightarrow>
          (case timeDate (\<lambda>c loc. DateAddDate lib c loc 0 0 n)
                  (gYear, gMonth, gDay, Hour j, Minute j, Second j, Nsec j) (Loc j) of
             None \<Rightarrow> None
           | Some newGDate \<Rightarrow> ToJalali newGDate))"

text \<open>
  An instance of the library for evaluating the definitions on concrete values: every
  zone has the fixed offset of its first rule, and the instant of a civil time is its
  time of day less that offset, in nanoseconds.
\<close>

definition exampleLib :: TimeLib where
  "exampleLib =
     \<lparr>Local = \<lparr>locName = ''Local'', locRules = []\<rparr>,
      DateWeekday = (\<lambda>c loc. 0),
      DateZone = (\<lambda>c loc. (locName loc, 0)),
      DateUnix = (\<lambda>c loc. 0),
      DateUnixNano =
        (\<lambda>(y, m, d, hour, minute, sec, nsec) loc.
           (((hour * 60 + minute) * 60 + sec)
            - (case locRules loc of [] \<Rightarrow> 0 | (t, offset) # r \<Rightarrow> offset)) * 1000000000 + nsec),
      DateAddDate = (\<lambda>c loc years months days. (c, loc))\<rparr>"

section \<open>Formatting\<close>

text \<open>
  A Go string is a sequence of bytes, here a list of \<^typ>\<open>char\<close>; indexing and slicing
  a string count bytes. The Persian names are the UTF-8 bytes of the source text.
\<close>

definition FaJalaliMonthName :: "string list" where
  "FaJalaliMonthName =
     [[],
      [CHR 0xD9, CHR 0x81, CHR 0xD8, CHR 0xB1, CHR 0xD9, CHR 0x88, CHR 0xD8, CHR 0xB1, CHR 0xD8, CHR 0xAF, CHR 0xDB, CHR 0x8C, CHR 0xD9, CHR 0x86],
      [CHR 0xD8, CHR 0xA7, CHR 0xD8, CHR 0xB1, CHR 0xD8, CHR 0xAF, CHR 0xDB, CHR 0x8C, CHR 0xD8, CHR 0xA8, CHR 0xD9, CHR 0x87, CHR 0xD8, CHR 0xB4, CHR 0xD8, CHR 0xAA],
      [CHR 0xD8, CHR 0xAE, CHR 0xD8, CHR 0xB1, CHR 0xD8, CHR 0xAF, CHR 0xD8, CHR 0xA7, CHR 0xD8, CHR 0xAF],
      [CHR 0xD8, CHR 0xAA, CHR 0xDB, CHR 0x8C, CHR 0xD8, CHR 0xB1],
      [CHR 0xD9, CHR 0x85, CHR 0xD8, CHR 0xB1, CHR 0xD8, CHR 0xAF, CHR 0xD8, CHR 0xA7, CHR 0xD8, CHR 0xAF],
      [CHR 0xD8, CHR 0xB4, CHR 0xD9, CHR 0x87, CHR 0xD8, CHR 0xB1, CHR 0xDB, CHR 0x8C, CHR 0xD9, CHR 0x88, CHR 0xD8, CHR 0xB1],
      [CHR 0xD9, CHR 0x85, CHR 0xD9, CHR 0x87, CHR 0xD8, CHR 0xB1],
      [CHR 0xD8, CHR 0xA2, CHR 0xD8, CHR 0xA8, CHR 0xD8, CHR 0xA7, CHR 0xD9, CHR 0x86],
      [CHR 0xD8, CHR 0xA2, CHR 0xD8, CHR 0xB0, CHR 0xD8, CHR 0xB1],
      [CHR 0xD8, CHR 0xAF, CHR 0xDB, CHR 0x8C],
      [CHR 0xD8, CHR 0xA8, CHR 0xD9, CHR 0x87, CHR 0xD9, CHR 0x85, CHR 0xD9, CHR 0x86],
      [CHR 0xD8, CHR 0xA7, CHR 0xD8, CHR 0xB3, CHR 0xD9, CHR 0x81, CHR 0xD9, CHR 0x86, CHR 0xD8, CHR 0xAF]]"

definition FaWeekDays :: "string list" where
  "FaWeekDays =
     [[CHR 0xDB, CHR 0x8C, CHR 0xDA, CHR 0xA9, CHR 0xD8, CHR 0xB4, CHR 0xD9, CHR 0x86, CHR 0xD8, CHR 0xA8, CHR 0xD9, CHR 0x87],
      [CHR 0xD8, CHR 0xAF, CHR 0xD9, CHR 0x88, CHR 0xD8, CHR 0xB4, CHR 0xD9, CHR 0x86, CHR 0xD8, CHR 0xA8, CHR 0xD9, CHR 0x87],
      [CHR 0xD8, CHR 0xB3, CHR 0xD9, CHR 0x87, CHR 0xE2, CHR 0x80, CHR 0x8C, CHR 0xD8, CHR 0xB4, CHR 0xD9, CHR 0x86, CHR 0xD8, CHR 0xA8, CHR 0xD9, CHR 0x87],
      [CHR 0xDA, CHR 0x86, CHR 0xD9, CHR 0x87, CHR 0xD8, CHR 0xA7, CHR 0xD8, CHR 0xB1, CHR 0xD8, CHR 0xB4, CHR 0xD9, CHR 0x86, CHR 0xD8, CHR 0xA8, CHR 0xD9, CHR 0x87],
      [CHR 0xD9, CHR 0xBE, CHR 0xD9, CHR 0x86, CHR 0xD8, CHR 0xAC, CHR 0xE2, CHR 0x80, CHR 0x8C, CHR 0xD8, CHR 0xB4, CHR 0xD9, CHR 0x86, CHR 0xD8, CHR 0xA8, CHR 0xD9, CHR 0x87],
      [CHR 0xD8, CHR 0xAC, CHR 0xD9, CHR 0x85, CHR 0xD8, CHR 0xB9, CHR 0xD9, CHR 0x87],
      [CHR 0xD8, CHR 0xB4, CHR 0xD9, CHR 0x86, CHR 0xD8, CHR 0xA8, CHR 0xD9, CHR 0x87]]"

text \<open>
  \<open>fmt.Sprintf\<close> with the verb \<open>%0wd\<close>: the decimal digits, padded with zeros to the
  width \<open>w\<close>, the sign of a negative number counting towards the width.
\<close>

fun decimal :: "nat \<Rightarrow> string" where
  "decimal n =
     (if n < 10 then [char_of (48 + n)] else decimal (n div 10) @ [char_of (48 + n mod 10)])"

declare decimal.simps [simp del]

definition padZero :: "nat \<Rightarrow> string \<Rightarrow> string" where
  "padZero w s = replicate (w - length s) CHR ''0'' @ s"

definition sprintf0d :: "nat \<Rightarrow> int \<Rightarrow> string" where
  "sprintf0d w n =
     (if n < 0 then CHR ''-'' # padZero (w - 1) (decimal (nat (- n)))
      else padZero w (decimal (nat n)))"

text \<open>
  One case of the \<open>switch\<close> on a two-byte specifier. Indexing a table outside its
  bounds is a panic, the result \<open>None\<close>.
\<close>

definition index :: "'a list \<Rightarrow> int \<Rightarrow> 'a option" where
  "index xs i = (if 0 \<le> i \<and> i < int (length xs) then Some (xs ! nat i) else None)"

definition formatSpecifier :: "TimeLib \<Rightarrow> JalaliTime \<Rightarrow> string \<Rightarrow> string option" where
  "formatSpecifier lib j specifier =
     (if specifier = ''%n'' then Some [CHR 0x0A]
      else if specifier = ''%%'' then Some ''%''
      else if specifier = ''%Y'' then Some (sprintf0d 4 (Year j))
      else if specifier = ''%y'' then Some (sprintf0d 2 (Year j smod 100))
      else if specifier = ''%m'' then Some (sprintf0d 2 (Month j))
      else if specifier = ''%B'' then index FaJalaliMonthName (Month j)
      else if specifier = ''%b'' then
        (case index FaJalaliMonthName (Month j) of
           None \<Rightarrow> None
         | Some name \<Rightarrow> if length name \<ge> 3 then Some (take 3 name) else Some name)
      else if specifier = ''%d'' then Some (sprintf0d 2 (Day j))
      else if specifier = ''%H'' then Some (sprintf0d 2 (Hour j))
      else if specifier = ''%M'' then Some (sprintf0d 2 (Minute j))
      else if specifier = ''%S'' then Some (sprintf0d 2 (Second j))
      else if specifier = ''%p'' then
        (if Hour j < 12 then Some [CHR 0xD8, CHR 0xB5, CHR 0xD8, CHR 0xA8, CHR 0xD8, CHR 0xAD]
         else Some [CHR 0xD8, CHR 0xB9, CHR 0xD8, CHR 0xB5, CHR 0xD8, CHR 0xB1])
      else if specifier = ''%w'' then
        (case Weekday lib j of None \<Rightarrow> None | Some w \<Rightarrow> index FaWeekDays w)
      else if specifier = ''%z'' then
        (case Zone lib j of
           None \<Rightarrow> None
         | Some (name, offset) \<Rightarrow>
             let (sign, offset) = (if offset < 0 then (''-'', wrap64 (- offset)) else (''+'', offset));
                 hours = offset sdiv 3600;
                 minutes = (offset smod 3600) sdiv 60
             in Some (sign @ sprintf0d 2 hours @ sprintf0d 2 minutes))
      else if specifier = ''%Z'' then
        (case Loc j of None \<Rightarrow> Some [] | Some loc \<Rightarrow> Some (locName loc))
      else if specifier = ''%R'' then
        Some (sprintf0d 2 (Hour j) @ '':'' @ sprintf0d 2 (Minute j))
      else if specifier = ''%T'' then
        Some (sprintf0d 2 (Hour j) @ '':'' @ sprintf0d 2 (Minute j) @ '':''
              @ sprintf0d 2 (Second j))
      else Some specifier)"

fun Format :: "TimeLib \<Rightarrow> JalaliTime \<Rightarrow> string \<Rightarrow> string option" where
  "Format lib j (c # d # layout) =
     (if c = CHR ''%'' then
        (case formatSpecifier lib j [c, d] of
           None \<Rightarrow> None
         | Some out \<Rightarrow> map_option (\<lambda>rest. out @ rest) (Format lib j layout))
      else map_option (\<lambda>rest. c # rest) (Format lib j (d # layout)))"
| "Format lib j layout = Some layout"

declare Format.simps [simp del]

text \<open>
  Decoding UTF-8, to say what the characters of a byte string are: the code points of
  a well-formed string, and \<open>None\<close> for a string that is not well-formed UTF-8.
\<close>

definition continuation :: "char \<Rightarrow> bool" where
  "continuation c = (128 \<le> (of_char c :: nat) \<and> (of_char c :: nat) < 192)"

fun utf8Decode :: "string \<Rightarrow> nat list option" where
  "utf8Decode [] = Some []"
| "utf8Decode (c # cs) =
     (let b = (of_char c :: nat) in
      if b < 128 then map_option (\<lambda>r. b # r) (utf8Decode cs)
      else if 194 \<le> b \<and> b < 224 then
        (case cs of
           c1 # r1 \<Rightarrow>
             if continuation c1
             then map_option (\<lambda>r. ((b - 192) * 64 + (of_char c1 - 128)) # r) (utf8Decode r1)
             else None
         | _ \<Rightarrow> None)
      else if 224 \<le> b \<and> b < 240 then
        (case cs of
           c1 # c2 # r2 \<Rightarrow>
             if continuation c1 \<and> continuation c2
                \<and> 2048 \<le> (b - 224) * 4096 + (of_char c1 - 128) * 64 + (of_char c2 - 128)
             then map_option
                    (\<lambda>r. ((b - 224) * 4096 + (of_char c1 - 128) * 64 + (of_char c2 - 128)) # r)
                    (utf8Decode r2)
             else None
         | _ \<Rightarrow> None)
      else if 240 \<le> b \<and> b < 245 then
        (case cs of
           c1 # c2 # c3 # r3 \<Rightarrow>
             if continuation c1 \<and> continuation c2 \<and> continuation c3
                \<and> 65536 \<le> (b - 240) * 262144 + (of_char c1 - 128) * 4096
                            + (of_char c2 - 128) * 64 + (of_char c3 - 128)
             then map_option
                    (\<lambda>r. ((b - 240) * 262144 + (of_char c1 - 128) * 4096
                           + (of_char c2 - 128) * 64 + (of_char c3 - 128)) # r)
                    (utf8Decode r3)
             else None
         | _ \<Rightarrow> None)
      else None)"

section \<open>Parsing\<close>

text \<open>
  The errors of \<open>ParseInLocation\<close> are messages; here constructors, the second with the
  three numbers the message prints.
\<close>

datatype error = UnableToParse | InvalidJalaliDate int int int

text \<open>
  \<open>ReplaceAllStringFunc\<close> with the pattern \<open>%([YymdHMS])\<close>: from the left, each
  \<open>%\<close> followed by one of the seven letters becomes the group \<open>(\d+)\<close>.
\<close>

fun replaceDirectives :: "string \<Rightarrow> string" where
  "replaceDirectives (c # d # layout) =
     (if c = CHR ''%'' \<and> d \<in> set ''YymdHMS''
      then [CHR ''('', CHR 0x5C, CHR ''d'', CHR ''+'', CHR '')''] @ replaceDirectives layout
      else c # replaceDirectives (d # layout))"
| "replaceDirectives layout = layout"

text \<open>
  \<open>strconv.Atoi\<close> with its error dropped, as the source drops it: the value of an
  optional sign and decimal digits, the nearest 64-bit value when that does not fit,
  and 0 for any other string.
\<close>

fun digitsValue :: "int \<Rightarrow> string \<Rightarrow> int option" where
  "digitsValue acc [] = Some acc"
| "digitsValue acc (c # cs) =
     (if 48 \<le> (of_char c :: int) \<and> (of_char c :: int) \<le> 57
      then digitsValue (10 * acc + (of_char c - 48)) cs
      else None)"

definition Atoi :: "string \<Rightarrow> int" where
  "Atoi s =
     (let (neg, ds) =
            (case s of
               [] \<Rightarrow> (False, [])
             | c # cs \<Rightarrow>
                 if c = CHR ''-'' then (True, cs)
                 else if c = CHR ''+'' then (False, cs)
                 else (False, s))
      in if ds = [] then 0
         else (case digitsValue 0 ds of
                 None \<Rightarrow> 0
               | Some n \<Rightarrow>
                   if neg then max (- 9223372036854775808) (- n)
                   else min 9223372036854775807 n))"

text \<open>
  The regular expression engine is a parameter: \<open>regexp\<close> applied to a pattern is
  \<open>None\<close> when \<open>regexp.MustCompile\<close> panics on it, and otherwise the function
  \<open>FindStringSubmatch\<close> of the compiled pattern, whose result is the whole match
  followed by one string for each group of the pattern, or the empty list when the
  value does not match. The outer \<open>None\<close> of the result is the panic; the pair is
  Go's pair of a value and an error.
\<close>

type_synonym regexp = "string \<Rightarrow> (string \<Rightarrow> string list) option"

definition ParseInLocation ::
  "regexp \<Rightarrow> string \<Rightarrow> string \<Rightarrow> Location option \<Rightarrow> (JalaliTime \<times> error option) option" where
  "ParseInLocation regexp layout val loc =
     (case regexp (replaceDirectives layout) of
        None \<Rightarrow> None
      | Some FindStringSubmatch \<Rightarrow>
          let matches = FindStringSubmatch val
          in if length matches < 7 then Some (zeroJalaliTime, Some UnableToParse)
             else
               let year = Atoi (matches ! 1);
                   month = Atoi (matches ! 2);
                   day = Atoi (matches ! 3);
                   hour = Atoi (matches ! 4);
                   minute = Atoi (matches ! 5);
                   sec = Atoi (matches ! 6)
               in if \<not> isValidJalaliDate year month day
                  then Some (zeroJalaliTime, Some (InvalidJalaliDate year month day))
                  else Some (\<lparr>Year = year, Month = month, Day = day, Hour = hour,
                              Minute = minute, Second = sec, Nsec = 0, Loc = loc\<rparr>, None))"

definition Parse ::
  "regexp \<Rightarrow> TimeLib \<Rightarrow> string \<Rightarrow> string \<Rightarrow> (JalaliTime \<times> error option) option" where
  "Parse regexp lib layout val = ParseInLocation regexp layout val (Some (Local lib))"

section \<open>Properties of the leap rule and the month lengths\<close>

lemma leapYearsRemainders_dom:
  "(leapYearsRemainders r \<noteq> None) = (r \<in> {1, 5, 9, 13, 17, 22, 26, 30})"
  by (auto simp add: leapYearsRemainders_def)

lemma isLeapJalaliYear_iff:
  "isLeapJalaliYear year = (year smod 33 \<in> {1, 5, 9, 13, 17, 22, 26, 30})"
proof -
  have "isLeapJalaliYear year = (leapYearsRemainders (year smod 33) \<noteq> None)"
    by (simp add: isLeapJalaliYear_def split: option.split)
  then show ?thesis
    by (simp only: leapYearsRemainders_dom)
qed

lemma smod_nonneg_eq_mod:
  fixes a b :: int
  assumes "0 \<le> a" and "0 < b"
  shows "a smod b = a mod b"
  using assms by (simp add: signed_modulo_int_def sgn_if)

lemma sdiv_nonneg_eq_div:
  fixes a b :: int
  assumes "0 \<le> a" and "0 < b"
  shows "a sdiv b = a div b"
  using assms by (simp add: signed_divide_int_def sgn_if)

lemma daysInMonth_cases:
  "daysInMonth year month =
     (if month < 1 \<or> 12 < month then 0
      else if month \<le> 6 then 31
      else if month \<le> 11 then 30
      else if isLeapJalaliYear year then 30 else 29)"
  by (simp add: daysInMonth_def Farvardin_def Shahrivar_def Bahman_def Esfand_def)

text \<open>
  C2. \<open>daysInMonth\<close> is 31 for months 1 to 6, 30 for months 7 to 11, and for month 12
  it is 30 exactly in a leap year and 29 otherwise; a month outside 1 to 12 gives the
  value 0 (the function has no error result). \<open>isLeapJalaliYear\<close> holds exactly when
  the remainder of the year by 33, as Go's \<open>%\<close> computes it, is one of
  1, 5, 9, 13, 17, 22, 26, 30; for a year that is not negative this remainder is the
  mathematical \<open>year mod 33\<close>.
\<close>

theorem daysInMonth_isLeapJalaliYear_spec:
  "(isLeapJalaliYear year \<longleftrightarrow> year smod 33 \<in> {1, 5, 9, 13, 17, 22, 26, 30})
   \<and> (0 \<le> year \<longrightarrow> (isLeapJalaliYear year \<longleftrightarrow> year mod 33 \<in> {1, 5, 9, 13, 17, 22, 26, 30}))
   \<and> (1 \<le> month \<and> month \<le> 6 \<longrightarrow> daysInMonth year month = 31)
   \<and> (7 \<le> month \<and> month \<le> 11 \<longrightarrow> daysInMonth year month = 30)
   \<and> (month = 12 \<longrightarrow> daysInMonth year month = (if isLeapJalaliYear year then 30 else 29))
   \<and> (month < 1 \<or> 12 < month \<longrightarrow> daysInMonth year month = 0)"
proof -
  have "0 \<le> year \<longrightarrow> (isLeapJalaliYear year \<longleftrightarrow> year mod 33 \<in> {1, 5, 9, 13, 17, 22, 26, 30})"
    using smod_nonneg_eq_mod [of year 33] by (simp add: isLeapJalaliYear_iff)
  moreover have "1 \<le> month \<and> month \<le> 6 \<longrightarrow> daysInMonth year month = 31"
    by (simp add: daysInMonth_cases)
  moreover have "7 \<le> month \<and> month \<le> 11 \<longrightarrow> daysInMonth year month = 30"
    by (simp add: daysInMonth_cases)
  moreover have "month = 12 \<longrightarrow> daysInMonth year month = (if isLeapJalaliYear year then 30 else 29)"
    by (simp add: daysInMonth_cases)
  moreover have "month < 1 \<or> 12 < month \<longrightarrow> daysInMonth year month = 0"
    by (auto simp add: daysInMonth_cases)
  ultimately show ?thesis
    using isLeapJalaliYear_iff [of year] by blast
qed

theorem daysInMonth_isLeapJalaliYear_spec_witness:
  "isLeapJalaliYear 1399 \<and> \<not> isLeapJalaliYear 1400
   \<and> (1399::int) smod 33 = 13 \<and> (1399::int) mod 33 = 13
   \<and> daysInMonth 1399 3 = 31 \<and> daysInMonth 1399 8 = 30
   \<and> daysInMonth 1399 12 = 30 \<and> daysInMonth 1400 12 = 29
   \<and> daysInMonth 1399 0 = 0 \<and> daysInMonth 1399 13 = 0"
  using daysInMonth_isLeapJalaliYear_spec [of 1399 3]
    daysInMonth_isLeapJalaliYear_spec [of 1399 8]
    daysInMonth_isLeapJalaliYear_spec [of 1399 12]
    daysInMonth_isLeapJalaliYear_spec [of 1400 12]
    daysInMonth_isLeapJalaliYear_spec [of 1399 0]
    daysInMonth_isLeapJalaliYear_spec [of 1399 13]
  by (simp add: signed_modulo_int_def)
section \<open>Properties of the field-based arithmetic\<close>

lemma wrap64_id: "int64 x \<Longrightarrow> wrap64 x = x"
  by (simp add: wrap64_def int64_def)

lemma daysInMonth_ge29: "1 \<le> m \<Longrightarrow> m \<le> 12 \<Longrightarrow> 29 \<le> daysInMonth y m"
  by (simp add: daysInMonth_cases)

lemma carryMonths_range:
  "carryMonths y m = (y', m') \<Longrightarrow> m' \<le> 12 \<and> (1 \<le> m \<longrightarrow> 1 \<le> m') \<and> (m \<le> 12 \<longrightarrow> m' = m)"
proof (induction y m rule: carryMonths.induct)
  case (1 newYear newMonth)
  from "1.prems" show ?case
    by (subst (asm) carryMonths.simps) (use "1.IH" in \<open>auto split: if_splits\<close>)
qed

lemma borrowMonths_range:
  "borrowMonths y m = (y', m') \<Longrightarrow> 1 \<le> m' \<and> (m \<le> 12 \<longrightarrow> m' \<le> 12)"
proof (induction y m rule: borrowMonths.induct)
  case (1 newYear newMonth)
  from "1.prems" show ?case
    by (subst (asm) borrowMonths.simps) (use "1.IH" in \<open>auto split: if_splits\<close>)
qed

lemma dayForward_range:
  "dayForward y m d mx = (y', m', d') \<Longrightarrow> 1 \<le> m \<Longrightarrow> m \<le> 12 \<Longrightarrow> mx = daysInMonth y m \<Longrightarrow>
     1 \<le> m' \<and> m' \<le> 12 \<and> d' \<le> daysInMonth y' m' \<and> (1 \<le> d \<longrightarrow> 1 \<le> d')"
proof (induction y m d mx arbitrary: y' m' d' rule: dayForward.induct)
  case (1 newYear newMonth newDay maxDays)
  show ?case
  proof (cases "newDay > maxDays")
    case False
    with "1.prems" show ?thesis by (subst (asm) dayForward.simps) simp
  next
    case True
    define year2 where "year2 = (if newMonth + 1 > 12 then wrap64 (newYear + 1) else newYear)"
    define month2 where "month2 = (if newMonth + 1 > 12 then 1 else newMonth + 1)"
    have m2: "1 \<le> month2" "month2 \<le> 12"
      using "1.prems" by (auto simp add: month2_def)
    have rec: "dayForward year2 month2 (newDay - maxDays) (daysInMonth year2 month2) = (y', m', d')"
      using "1.prems"(1) True
      by (subst (asm) dayForward.simps) (simp add: year2_def month2_def Let_def split: if_splits)
    have "1 \<le> m' \<and> m' \<le> 12 \<and> d' \<le> daysInMonth y' m' \<and> (1 \<le> newDay - maxDays \<longrightarrow> 1 \<le> d')"
      by (rule "1.IH" [OF True refl refl _ refl rec m2 refl])
        (simp add: year2_def month2_def)
    then show ?thesis using True by simp
  qed
qed

lemma dayBackward_range:
  "dayBackward y m d = (y', m', d') \<Longrightarrow> 1 \<le> m \<Longrightarrow> m \<le> 12 \<Longrightarrow> d \<le> daysInMonth y m \<Longrightarrow>
     1 \<le> m' \<and> m' \<le> 12 \<and> 1 \<le> d' \<and> d' \<le> daysInMonth y' m'"
proof (induction y m d arbitrary: y' m' d' rule: dayBackward.induct)
  case (1 newYear newMonth newDay)
  show ?case
  proof (cases "newDay < 1")
    case False
    with "1.prems" show ?thesis by (subst (asm) dayBackward.simps) simp
  next
    case True
    define year2 where "year2 = (if newMonth - 1 < 1 then wrap64 (newYear - 1) else newYear)"
    define month2 where "month2 = (if newMonth - 1 < 1 then 12 else newMonth - 1)"
    have m2: "1 \<le> month2" "month2 \<le> 12"
      using "1.prems" by (auto simp add: month2_def)
    have rec: "dayBackward year2 month2 (newDay + daysInMonth year2 month2) = (y', m', d')"
      using "1.prems"(1) True
      by (subst (asm) dayBackward.simps) (simp add: year2_def month2_def Let_def split: if_splits)
    have le: "newDay + daysInMonth year2 month2 \<le> daysInMonth year2 month2"
      using True by simp
    show ?thesis
      by (rule "1.IH" [OF True refl refl _ refl rec m2 le])
        (simp add: year2_def month2_def)
  qed
qed


lemma AddJalaliDuration_fields:
  "Hour (AddJalaliDuration j d) = Hour j \<and> Minute (AddJalaliDuration j d) = Minute j
   \<and> Second (AddJalaliDuration j d) = Second j \<and> Nsec (AddJalaliDuration j d) = Nsec j
   \<and> Loc (AddJalaliDuration j d) = Loc j"
  by (simp add: AddJalaliDuration_def Let_def split: prod.splits)

lemma AddJalaliDuration_invariant: "dateInvariant (AddJalaliDuration j d)"
proof -
  obtain y1 m1 where c: "carryMonths (wrap64 (Year j + Years d)) (wrap64 (Month j + Months d)) = (y1, m1)"
    by (cases "carryMonths (wrap64 (Year j + Years d)) (wrap64 (Month j + Months d))")
  obtain y2 m2 where b: "borrowMonths y1 m1 = (y2, m2)"
    by (cases "borrowMonths y1 m1")
  obtain y3 m3 d3 where f: "dayForward y2 m2 (wrap64 (Day j + Days d)) (daysInMonth y2 m2) = (y3, m3, d3)"
    by (cases "dayForward y2 m2 (wrap64 (Day j + Days d)) (daysInMonth y2 m2)")
  obtain y4 m4 d4 where k: "dayBackward y3 m3 d3 = (y4, m4, d4)"
    by (cases "dayBackward y3 m3 d3")
  have m1: "m1 \<le> 12" using carryMonths_range [OF c] by simp
  have m2: "1 \<le> m2" "m2 \<le> 12" using borrowMonths_range [OF b] m1 by simp_all
  have r3: "1 \<le> m3" "m3 \<le> 12" "d3 \<le> daysInMonth y3 m3"
    using dayForward_range [OF f m2 refl] by simp_all
  have r4: "1 \<le> m4 \<and> m4 \<le> 12 \<and> 1 \<le> d4 \<and> d4 \<le> daysInMonth y4 m4"
    by (rule dayBackward_range [OF k r3])
  have "Year (AddJalaliDuration j d) = y4 \<and> Month (AddJalaliDuration j d) = m4
      \<and> Day (AddJalaliDuration j d) = d4"
    by (simp add: AddJalaliDuration_def Let_def c b f k)
  with r4 show ?thesis by (simp add: dateInvariant_def)
qed

lemma AddYears_invariant:
  "dateInvariant j \<Longrightarrow> IsZero (AddYears j n) \<or> dateInvariant (AddYears j n)"
  by (auto simp add: AddYears_def Let_def IsZero_def zeroJalaliTime_def dateInvariant_def
      daysInMonth_cases IsLeapJalaliYear_def split: if_splits)

lemma AddMonths_invariant:
  assumes inv: "dateInvariant j" and n: "0 \<le> n"
  shows "dateInvariant (AddMonths j n)"
proof -
  have r: "0 \<le> n smod 12" "n smod 12 < 12"
    using n by (simp_all add: smod_nonneg_eq_mod)
  have m: "1 \<le> Month j" "Month j \<le> 12" "1 \<le> Day j"
    using inv by (simp_all add: dateInvariant_def)
  have w: "wrap64 (Month j + n smod 12) = Month j + n smod 12"
    using r m by (intro wrap64_id) (simp add: int64_def)
  define newMonth where
    "newMonth = (if Month j + n smod 12 > 12 then Month j + n smod 12 - 12 else Month j + n smod 12)"
  define newYear where
    "newYear = (if Month j + n smod 12 > 12 then wrap64 (wrap64 (Year j + n sdiv 12) + 1)
                else wrap64 (Year j + n sdiv 12))"
  have nm: "1 \<le> newMonth" "newMonth \<le> 12"
    using r m by (auto simp add: newMonth_def)
  have res: "Year (AddMonths j n) = newYear" "Month (AddMonths j n) = newMonth"
    "Day (AddMonths j n) = (if Day j > daysInMonth newYear newMonth then daysInMonth newYear newMonth else Day j)"
    by (simp_all add: AddMonths_def Let_def w newMonth_def newYear_def)
  show ?thesis
    using nm m daysInMonth_ge29 [OF nm, of newYear]
    by (simp add: dateInvariant_def res)
qed

lemma AddJalaliDuration_example:
  "AddJalaliDuration
     \<lparr>Year = 1399, Month = 2, Day = 28, Hour = h, Minute = mi, Second = s, Nsec = ns, Loc = l\<rparr>
     \<lparr>Years = 1, Months = 2, Days = 3\<rparr>
   = \<lparr>Year = 1400, Month = 4, Day = 31, Hour = h, Minute = mi, Second = s, Nsec = ns, Loc = l\<rparr>"
  by (simp add: AddJalaliDuration_def wrap64_def carryMonths.simps borrowMonths.simps
      dayForward.simps dayBackward.simps daysInMonth_cases)

lemma SubJalaliDuration_example:
  "SubJalaliDuration
     \<lparr>Year = 1400, Month = 5, Day = 1, Hour = h, Minute = mi, Second = s, Nsec = ns, Loc = l\<rparr>
     \<lparr>Years = 1, Months = 2, Days = 3\<rparr>
   = \<lparr>Year = 1399, Month = 2, Day = 29, Hour = h, Minute = mi, Second = s, Nsec = ns, Loc = l\<rparr>"
  by (simp add: SubJalaliDuration_def AddJalaliDuration_def wrap64_def carryMonths.simps borrowMonths.simps
      dayForward.simps dayBackward.simps daysInMonth_cases)

lemma SubJalaliDuration_fields:
  "Hour (SubJalaliDuration j d) = Hour j \<and> Minute (SubJalaliDuration j d) = Minute j
   \<and> Second (SubJalaliDuration j d) = Second j \<and> Nsec (SubJalaliDuration j d) = Nsec j
   \<and> Loc (SubJalaliDuration j d) = Loc j"
  by (simp add: SubJalaliDuration_def Let_def AddJalaliDuration_fields)

lemma SubJalaliDuration_invariant: "dateInvariant (SubJalaliDuration j d)"
  by (simp add: SubJalaliDuration_def Let_def AddJalaliDuration_invariant)

text \<open>
  C3. \<open>AddJalaliDuration\<close> adds the years, carries or borrows months until the month is
  in 1 to 12, then walks the day month by month, with the length of each month it
  reaches, until the day is in range: its result always has a month in 1 to 12 and a
  day that exists in that month, and the hour, minute, second, nanosecond and zone of
  its argument. \<open>SubJalaliDuration\<close> is \<open>AddJalaliDuration\<close> of the negated duration.
  The duration of 1 year, 2 months and 3 days added to 1399-02-28 gives 1400-04-31, and
  subtracted from 1400-05-01 gives 1399-02-29, whatever the time of day and the zone.
\<close>

theorem AddJalaliDuration_SubJalaliDuration_spec:
  "AddJalaliDuration
     \<lparr>Year = 1399, Month = 2, Day = 28, Hour = h, Minute = mi, Second = s, Nsec = ns, Loc = l\<rparr>
     \<lparr>Years = 1, Months = 2, Days = 3\<rparr>
   = \<lparr>Year = 1400, Month = 4, Day = 31, Hour = h, Minute = mi, Second = s, Nsec = ns, Loc = l\<rparr>
   \<and> SubJalaliDuration
     \<lparr>Year = 1400, Month = 5, Day = 1, Hour = h, Minute = mi, Second = s, Nsec = ns, Loc = l\<rparr>
     \<lparr>Years = 1, Months = 2, Days = 3\<rparr>
   = \<lparr>Year = 1399, Month = 2, Day = 29, Hour = h, Minute = mi, Second = s, Nsec = ns, Loc = l\<rparr>
   \<and> SubJalaliDuration j d =
       AddJalaliDuration j
         \<lparr>Years = wrap64 (- Years d), Months = wrap64 (- Months d), Days = wrap64 (- Days d)\<rparr>
   \<and> 1 \<le> Month (AddJalaliDuration j d) \<and> Month (AddJalaliDuration j d) \<le> 12
   \<and> 1 \<le> Day (AddJalaliDuration j d)
   \<and> Day (AddJalaliDuration j d)
       \<le> daysInMonth (Year (AddJalaliDuration j d)) (Month (AddJalaliDuration j d))
   \<and> Hour (AddJalaliDuration j d) = Hour j \<and> Minute (AddJalaliDuration j d) = Minute j
   \<and> Second (AddJalaliDuration j d) = Second j \<and> Nsec (AddJalaliDuration j d) = Nsec j
   \<and> Loc (AddJalaliDuration j d) = Loc j
   \<and> 1 \<le> Month (SubJalaliDuration j d) \<and> Month (SubJalaliDuration j d) \<le> 12
   \<and> 1 \<le> Day (SubJalaliDuration j d)
   \<and> Day (SubJalaliDuration j d)
       \<le> daysInMonth (Year (SubJalaliDuration j d)) (Month (SubJalaliDuration j d))
   \<and> Hour (SubJalaliDuration j d) = Hour j \<and> Minute (SubJalaliDuration j d) = Minute j
   \<and> Second (SubJalaliDuration j d) = Second j \<and> Nsec (SubJalaliDuration j d) = Nsec j
   \<and> Loc (SubJalaliDuration j d) = Loc j"
proof -
  have "SubJalaliDuration j d =
       AddJalaliDuration j
         \<lparr>Years = wrap64 (- Years d), Months = wrap64 (- Months d), Days = wrap64 (- Days d)\<rparr>"
    by (simp add: SubJalaliDuration_def)
  then show ?thesis
    using AddJalaliDuration_example [of h mi s ns l] SubJalaliDuration_example [of h mi s ns l]
      AddJalaliDuration_invariant [of j d] SubJalaliDuration_invariant [of j d]
      AddJalaliDuration_fields [of j d] SubJalaliDuration_fields [of j d]
    unfolding dateInvariant_def by blast
qed

text \<open>
  C4. The claim is that every arithmetic operation keeps the invariant of the data
  model or returns the zero value. \<open>AddMonths\<close> does not: it carries a month above 12
  into the year but does not borrow for a month below 1, so one month subtracted from
  1400-01-15 gives month 0, and the day is then cut down to the length 0 of that month.
  The result is not the zero value and has neither a month in 1 to 12 nor a day of at
  least 1. (The lemmas above show that \<open>AddYears\<close>, \<open>AddJalaliDuration\<close>,
  \<open>SubJalaliDuration\<close>, and \<open>AddMonths\<close> of a number that is not negative do keep the
  invariant.)
\<close>

theorem AddMonths_negative_breaks_invariant:
  "dateInvariant
     \<lparr>Year = 1400, Month = 1, Day = 15, Hour = 10, Minute = 30, Second = 0, Nsec = 0, Loc = None\<rparr>
   \<and> AddMonths
       \<lparr>Year = 1400, Month = 1, Day = 15, Hour = 10, Minute = 30, Second = 0, Nsec = 0, Loc = None\<rparr>
       (- 1)
     = \<lparr>Year = 1400, Month = 0, Day = 0, Hour = 10, Minute = 30, Second = 0, Nsec = 0, Loc = None\<rparr>
   \<and> \<not> IsZero (AddMonths
       \<lparr>Year = 1400, Month = 1, Day = 15, Hour = 10, Minute = 30, Second = 0, Nsec = 0, Loc = None\<rparr>
       (- 1))
   \<and> \<not> dateInvariant (AddMonths
       \<lparr>Year = 1400, Month = 1, Day = 15, Hour = 10, Minute = 30, Second = 0, Nsec = 0, Loc = None\<rparr>
       (- 1))"
proof -
  have "AddMonths
       \<lparr>Year = 1400, Month = 1, Day = 15, Hour = 10, Minute = 30, Second = 0, Nsec = 0, Loc = None\<rparr>
       (- 1)
     = \<lparr>Year = 1400, Month = 0, Day = 0, Hour = 10, Minute = 30, Second = 0, Nsec = 0, Loc = None\<rparr>"
    by (simp add: AddMonths_def wrap64_def signed_modulo_int_def signed_divide_int_def
        daysInMonth_cases)
  then show ?thesis
    by (simp add: dateInvariant_def IsZero_def daysInMonth_cases)
qed

text \<open>
  C5. \<open>AddYears\<close> changes the year only, apart from one clamp of the day. For a
  value whose year is at least 1 (as every constructed value has) and a 64-bit \<open>n\<close>:
  if the year plus \<open>n\<close> is below 1 the result is the zero value, on which \<open>IsZero\<close>
  holds; otherwise (the sum fitting the 64-bit range) the result is the argument with
  the new year, and with day 29 instead of 30 exactly when the argument is day 30 of
  month 12 of a leap year, whatever the new year is; in no other case does the day
  change.
\<close>

theorem AddYears_spec:
  assumes "1 \<le> Year j" and "int64 (Year j)" and "int64 n"
  shows "(Year j + n < 1 \<longrightarrow> AddYears j n = zeroJalaliTime \<and> IsZero (AddYears j n))
     \<and> (1 \<le> Year j + n \<and> Year j + n \<le> 9223372036854775807 \<longrightarrow>
          AddYears j n = j\<lparr>Year := Year j + n,
             Day := (if isLeapJalaliYear (Year j) \<and> Month j = 12 \<and> Day j = 30 then 29 else Day j)\<rparr>)"
proof -
  have "int64 (Year j + n)" if "Year j + n \<le> 9223372036854775807"
    using that assms by (simp add: int64_def)
  then have w: "wrap64 (Year j + n) = Year j + n" if "Year j + n \<le> 9223372036854775807"
    using that by (simp add: wrap64_id)
  have z: "IsZero zeroJalaliTime" by (simp add: IsZero_def zeroJalaliTime_def)
  show ?thesis
    using w z by (auto simp add: AddYears_def Let_def IsLeapJalaliYear_def)
qed

theorem AddYears_spec_witness:
  "AddYears
     \<lparr>Year = 1399, Month = 12, Day = 30, Hour = 21, Minute = 30, Second = 45, Nsec = 0, Loc = None\<rparr>
     (- 1400) = zeroJalaliTime
   \<and> IsZero (AddYears
     \<lparr>Year = 1399, Month = 12, Day = 30, Hour = 21, Minute = 30, Second = 45, Nsec = 0, Loc = None\<rparr>
     (- 1400))
   \<and> isLeapJalaliYear 1399 \<and> isLeapJalaliYear 1403
   \<and> AddYears
     \<lparr>Year = 1399, Month = 12, Day = 30, Hour = 21, Minute = 30, Second = 45, Nsec = 0, Loc = None\<rparr>
     4
     = \<lparr>Year = 1403, Month = 12, Day = 29, Hour = 21, Minute = 30, Second = 45, Nsec = 0, Loc = None\<rparr>
   \<and> AddYears
     \<lparr>Year = 1399, Month = 11, Day = 30, Hour = 21, Minute = 30, Second = 45, Nsec = 0, Loc = None\<rparr>
     1
     = \<lparr>Year = 1400, Month = 11, Day = 30, Hour = 21, Minute = 30, Second = 45, Nsec = 0, Loc = None\<rparr>"
  using AddYears_spec [of "\<lparr>Year = 1399, Month = 12, Day = 30, Hour = 21, Minute = 30,
      Second = 45, Nsec = 0, Loc = None\<rparr>" "- 1400"]
    AddYears_spec [of "\<lparr>Year = 1399, Month = 12, Day = 30, Hour = 21, Minute = 30,
      Second = 45, Nsec = 0, Loc = None\<rparr>" 4]
    AddYears_spec [of "\<lparr>Year = 1399, Month = 11, Day = 30, Hour = 21, Minute = 30,
      Second = 45, Nsec = 0, Loc = None\<rparr>" 1]
  by (simp add: int64_def isLeapJalaliYear_iff signed_modulo_int_def IsZero_def
      zeroJalaliTime_def)

section \<open>Properties of the Julian day number\<close>

lemma julianDayNumber_error_iff:
  "(\<exists>e. julianDayNumber rnd year month day hour minute second nanosecond = Inl e) \<longleftrightarrow>
     (year < - 4712 \<or> month < 1 \<or> 12 < month \<or> day < 1 \<or> 31 < day \<or> hour < 0 \<or> 23 < hour
      \<or> minute < 0 \<or> 59 < minute \<or> second < 0 \<or> 59 < second
      \<or> nanosecond < 0 \<or> 999999999 < nanosecond)"
  by (auto simp add: julianDayNumber_def Let_def split: prod.splits)

lemma julianDayNumber_error_field:
  "julianDayNumber rnd year month day hour minute second nanosecond = Inl e \<Longrightarrow>
     (case e of
        YearTooEarly v \<Rightarrow> v = year \<and> year < - 4712
      | InvalidMonth v \<Rightarrow> v = month \<and> (month < 1 \<or> 12 < month)
      | InvalidDay v \<Rightarrow> v = day \<and> (day < 1 \<or> 31 < day)
      | InvalidHour v \<Rightarrow> v = hour \<and> (hour < 0 \<or> 23 < hour)
      | InvalidMinute v \<Rightarrow> v = minute \<and> (minute < 0 \<or> 59 < minute)
      | InvalidSecond v \<Rightarrow> v = second \<and> (second < 0 \<or> 59 < second)
      | InvalidNanosecond v \<Rightarrow> v = nanosecond \<and> (nanosecond < 0 \<or> 999999999 < nanosecond))"
  by (auto simp add: julianDayNumber_def Let_def split: prod.splits if_splits)

lemma julianDayNumber_hour24:
  "julianDayNumber rnd 2022 1 1 24 0 0 0 = Inl (InvalidHour 24)"
  by (simp add: julianDayNumber_def)

lemma julianDayNumber_feb31:
  "\<exists>v. julianDayNumber rnd 2022 2 31 0 0 0 0 = Inr v"
  by (simp add: julianDayNumber_def Let_def)

lemma b64I: "\<bar>k\<bar> < 2 ^ 53 \<Longrightarrow> e \<le> 1074 \<Longrightarrow> x = real_of_int k / 2 ^ e \<Longrightarrow> binary64 x"
  unfolding binary64_def by blast

lemma b64_int: "\<bar>k\<bar> < 2 ^ 53 \<Longrightarrow> binary64 (real_of_int k)"
  by (rule b64I [where e = 0]) simp_all

lemma julianDayNumber_value:
  assumes r: "roundsToBinary64 rnd"
  shows "julianDayNumber rnd 2022 1 1 0 0 0 0 = Inr (4919161 / 2)"
proof -
  have fx: "rnd x = x" if "binary64 x" for x using r that by (simp add: roundsToBinary64_def)
  have mn: "rnd x \<le> rnd y" if "x \<le> y" for x y using r that by (simp add: roundsToBinary64_def mono_def)
  have h: "rnd (real_of_int k / 2 ^ e) = real_of_int k / 2 ^ e" if "\<bar>k\<bar> < 2 ^ 53" "e \<le> 1074" for k e
    using that by (intro fx b64I [where k = k and e = e]) simp_all
  have n: "rnd (numeral w) = numeral w" if "(numeral w :: int) < 2 ^ 53" for w
    using h [of "numeral w" 0] that by simp
  have m: "rnd (- numeral w) = - numeral w" if "(numeral w :: int) < 2 ^ 53" for w
    using h [of "- numeral w" 0] that by simp
  have z: "rnd 0 = 0" "rnd 1 = 1" using h [of 0 0] h [of 1 0] by simp_all
  have h2: "rnd (numeral w / 2) = numeral w / 2" if "(numeral w :: int) < 2 ^ 53" for w
    using h [of "numeral w" 1] that by simp
  have h4: "rnd (numeral w / 4) = numeral w / 4" if "(numeral w :: int) < 2 ^ 53" for w
    using h [of "numeral w" 2] that by simp
  have a1: "20 \<le> rnd (2021 / 100)"
    using mn [of 20 "2021 / 100"] n [of "num.Bit0 (num.Bit0 (num.Bit1 (num.Bit0 num.One)))"] by simp
  have a2: "rnd (2021 / 100) \<le> 41 / 2"
    using mn [of "2021 / 100" "41 / 2 ^ 1"] h [of 41 1] by simp
  have a: "\<lfloor>rnd (2021 / 100)\<rfloor> = 20" using a1 a2 by (simp add: floor_eq_iff)
  have c1: "979 / 32 \<le> rnd (306001 / 10000)"
    using mn [of "979 / 2 ^ 5" "306001 / 10000"] h [of 979 5] by simp
  have c2: "rnd (306001 / 10000) \<le> 1959 / 64"
    using mn [of "306001 / 10000" "1959 / 2 ^ 6"] h [of 1959 6] by simp
  have p1: "428 \<le> rnd (rnd (306001 / 10000) * 14)"
    using mn [of "428" "rnd (306001 / 10000) * 14"] h [of 428 0] c1 by simp
  have p2: "rnd (rnd (306001 / 10000) * 14) \<le> 13713 / 32"
    using mn [of "rnd (306001 / 10000) * 14" "13713 / 2 ^ 5"] h [of 13713 5] c2 by simp
  have p: "\<lfloor>rnd (rnd (306001 / 10000) * 14)\<rfloor> = 428" using p1 p2 by (simp add: floor_eq_iff)
  show ?thesis
    by (simp add: julianDayNumber_def Let_def z n m h2 h4 a p)
qed

text \<open>
  C6. \<open>julianDayNumber\<close> returns an error exactly when a field is out of its range:
  year below -4712, month outside 1 to 12, day outside 1 to 31, hour outside 0 to 23,
  minute or second outside 0 to 59, nanosecond outside 0 to 999999999. The error names
  a field that is out of range and carries its value; hour 24 gives the error of the
  hour. A day within 1 to 31 is never rejected, whatever the month: 31 February is
  accepted. For (2022, 1, 1, 0, 0, 0, 0) the result is 2459580.5 without error, for
  every rounding that is monotone and exact on the numbers of binary64.
\<close>

theorem julianDayNumber_spec:
  "((\<exists>err. julianDayNumber rnd year month day hour minute second nanosecond = Inl err) \<longleftrightarrow>
      (year < - 4712 \<or> month < 1 \<or> 12 < month \<or> day < 1 \<or> 31 < day \<or> hour < 0 \<or> 23 < hour
       \<or> minute < 0 \<or> 59 < minute \<or> second < 0 \<or> 59 < second
       \<or> nanosecond < 0 \<or> 999999999 < nanosecond))
   \<and> (julianDayNumber rnd year month day hour minute second nanosecond = Inl e \<longrightarrow>
        (case e of
           YearTooEarly v \<Rightarrow> v = year \<and> year < - 4712
         | InvalidMonth v \<Rightarrow> v = month \<and> (month < 1 \<or> 12 < month)
         | InvalidDay v \<Rightarrow> v = day \<and> (day < 1 \<or> 31 < day)
         | InvalidHour v \<Rightarrow> v = hour \<and> (hour < 0 \<or> 23 < hour)
         | InvalidMinute v \<Rightarrow> v = minute \<and> (minute < 0 \<or> 59 < minute)
         | InvalidSecond v \<Rightarrow> v = second \<and> (second < 0 \<or> 59 < second)
         | InvalidNanosecond v \<Rightarrow>
             v = nanosecond \<and> (nanosecond < 0 \<or> 999999999 < nanosecond)))
   \<and> julianDayNumber rnd 2022 1 1 24 0 0 0 = Inl (InvalidHour 24)
   \<and> (\<exists>v. julianDayNumber rnd 2022 2 31 0 0 0 0 = Inr v)
   \<and> (roundsToBinary64 rnd \<longrightarrow> julianDayNumber rnd 2022 1 1 0 0 0 0 = Inr 2459580.5)"
proof -
  have "roundsToBinary64 rnd \<longrightarrow> julianDayNumber rnd 2022 1 1 0 0 0 0 = Inr 2459580.5"
    using julianDayNumber_value [of rnd] by simp
  then show ?thesis
    using julianDayNumber_error_iff [of rnd year month day hour minute second nanosecond]
      julianDayNumber_error_field [of rnd year month day hour minute second nanosecond e]
      julianDayNumber_hour24 [of rnd] julianDayNumber_feb31 [of rnd]
    by blast
qed

theorem julianDayNumber_spec_witness:
  "roundsToBinary64 (\<lambda>x. x)
   \<and> julianDayNumber (\<lambda>x. x) 2022 1 1 0 0 0 0 = Inr 2459580.5
   \<and> julianDayNumber (\<lambda>x. x) 2022 1 1 24 0 0 0 = Inl (InvalidHour 24)
   \<and> julianDayNumber (\<lambda>x. x) (- 4713) 1 1 0 0 0 0 = Inl (YearTooEarly (- 4713))
   \<and> (\<exists>v. julianDayNumber (\<lambda>x. x) 2022 2 31 0 0 0 0 = Inr v)"
proof -
  have r: "roundsToBinary64 (\<lambda>x. x)"
    by (simp add: roundsToBinary64_def mono_def)
  have "julianDayNumber (\<lambda>x. x) (- 4713) 1 1 0 0 0 0 = Inl (YearTooEarly (- 4713))"
    by (simp add: julianDayNumber_def)
  then show ?thesis
    using r julianDayNumber_spec [of "\<lambda>x. x" "- 4713" 1 1 0 0 0 0 "YearTooEarly (- 4713)"]
    by simp
qed

section \<open>Properties of parsing\<close>

lemma ParseInLocation_success:
  assumes "regexp (replaceDirectives layout) = Some submatch"
      and "7 \<le> length (submatch val)"
      and "isValidJalaliDate (Atoi (submatch val ! 1)) (Atoi (submatch val ! 2)) (Atoi (submatch val ! 3))"
  shows "ParseInLocation regexp layout val loc =
           Some (\<lparr>Year = Atoi (submatch val ! 1), Month = Atoi (submatch val ! 2),
                  Day = Atoi (submatch val ! 3), Hour = Atoi (submatch val ! 4),
                  Minute = Atoi (submatch val ! 5), Second = Atoi (submatch val ! 6),
                  Nsec = 0, Loc = loc\<rparr>, None)"
  using assms by (simp add: ParseInLocation_def Let_def)

lemma ParseInLocation_ok_fields:
  assumes "regexp (replaceDirectives layout) = Some submatch"
      and "ParseInLocation regexp layout val loc = Some (j, None)"
  shows "Year j = Atoi (submatch val ! 1) \<and> Month j = Atoi (submatch val ! 2)
       \<and> Day j = Atoi (submatch val ! 3) \<and> Hour j = Atoi (submatch val ! 4)
       \<and> Minute j = Atoi (submatch val ! 5) \<and> Second j = Atoi (submatch val ! 6)
       \<and> Nsec j = 0 \<and> Loc j = loc"
  using assms by (auto simp add: ParseInLocation_def Let_def split: if_splits)

lemma replaceDirectives_day_first:
  "replaceDirectives ''%d-%m-%Y %H:%M:%S'' = replaceDirectives ''%Y-%m-%d %H:%M:%S''"
  by simp

lemma Atoi_examples:
  "Atoi ''1380'' = 1380" "Atoi ''07'' = 7" "Atoi ''25'' = 25" "Atoi ''10'' = 10" "Atoi ''30'' = 30"
  "Atoi ''1400'' = 1400" "Atoi ''01'' = 1" "Atoi ''99'' = 99" "Atoi ''75'' = 75" "Atoi ''61'' = 61"
  by (simp_all add: Atoi_def)

lemma isValid_examples: "isValidJalaliDate 1380 7 25" "isValidJalaliDate 1400 1 1"
  by (simp_all add: isValidJalaliDate_def daysInMonth_cases)

text \<open>
  C7. The layout only fixes where groups of digits stand: its directives
  \<open>%Y %y %m %d %H %M %S\<close> all become the same group before matching, so two layouts
  that differ only in the letters of their directives give the same result on every
  value. The numbers are taken from the groups by position: the first is the year,
  then month, day, hour, minute, second. With the layout \<open>%d-%m-%Y %H:%M:%S\<close>, which
  lists the day first, the first number of \<open>1380-07-25 10:25:30\<close> is the year 1380.
\<close>

theorem ParseInLocation_positional:
  "(replaceDirectives layout1 = replaceDirectives layout2 \<longrightarrow>
      ParseInLocation regexp layout1 val loc = ParseInLocation regexp layout2 val loc)
   \<and> replaceDirectives ''%d-%m-%Y %H:%M:%S'' = replaceDirectives ''%Y-%m-%d %H:%M:%S''
   \<and> (regexp (replaceDirectives layout) = Some submatch
        \<and> ParseInLocation regexp layout val loc = Some (j, None) \<longrightarrow>
        Year j = Atoi (submatch val ! 1) \<and> Month j = Atoi (submatch val ! 2)
        \<and> Day j = Atoi (submatch val ! 3) \<and> Hour j = Atoi (submatch val ! 4)
        \<and> Minute j = Atoi (submatch val ! 5) \<and> Second j = Atoi (submatch val ! 6))
   \<and> (regexp (replaceDirectives ''%d-%m-%Y %H:%M:%S'') = Some submatch
        \<and> submatch ''1380-07-25 10:25:30''
            = [''1380-07-25 10:25:30'', ''1380'', ''07'', ''25'', ''10'', ''25'', ''30''] \<longrightarrow>
        ParseInLocation regexp ''%d-%m-%Y %H:%M:%S'' ''1380-07-25 10:25:30'' loc
          = Some (\<lparr>Year = 1380, Month = 7, Day = 25, Hour = 10, Minute = 25, Second = 30,
                   Nsec = 0, Loc = loc\<rparr>, None))"
proof -
  have 1: "replaceDirectives layout1 = replaceDirectives layout2 \<longrightarrow>
      ParseInLocation regexp layout1 val loc = ParseInLocation regexp layout2 val loc"
    by (simp add: ParseInLocation_def)
  have 4: "ParseInLocation regexp ''%d-%m-%Y %H:%M:%S'' ''1380-07-25 10:25:30'' loc
          = Some (\<lparr>Year = 1380, Month = 7, Day = 25, Hour = 10, Minute = 25, Second = 30,
                   Nsec = 0, Loc = loc\<rparr>, None)"
    if a: "regexp (replaceDirectives ''%d-%m-%Y %H:%M:%S'') = Some submatch"
    and b: "submatch ''1380-07-25 10:25:30''
            = [''1380-07-25 10:25:30'', ''1380'', ''07'', ''25'', ''10'', ''25'', ''30'']"
    using ParseInLocation_success
        [of regexp "''%d-%m-%Y %H:%M:%S''" submatch "''1380-07-25 10:25:30''" loc] a
    by (simp add: b Atoi_examples isValid_examples)
  show ?thesis
    using 1 4 replaceDirectives_day_first
      ParseInLocation_ok_fields [of regexp layout submatch val loc j]
    by blast
qed

theorem ParseInLocation_positional_witness:
  "ParseInLocation
     (\<lambda>p. Some (\<lambda>v. [''1380-07-25 10:25:30'', ''1380'', ''07'', ''25'', ''10'', ''25'', ''30'']))
     ''%d-%m-%Y %H:%M:%S'' ''1380-07-25 10:25:30'' None
   = Some (\<lparr>Year = 1380, Month = 7, Day = 25, Hour = 10, Minute = 25, Second = 30,
            Nsec = 0, Loc = None\<rparr>, None)
   \<and> ParseInLocation
     (\<lambda>p. Some (\<lambda>v. [''1380-07-25 10:25:30'', ''1380'', ''07'', ''25'', ''10'', ''25'', ''30'']))
     ''%Y-%m-%d %H:%M:%S'' ''1380-07-25 10:25:30'' None
   = Some (\<lparr>Year = 1380, Month = 7, Day = 25, Hour = 10, Minute = 25, Second = 30,
            Nsec = 0, Loc = None\<rparr>, None)"
proof -
  let ?m = "\<lambda>v :: string. [''1380-07-25 10:25:30'', ''1380'', ''07'', ''25'', ''10'', ''25'', ''30'']"
  let ?re = "\<lambda>p :: string. Some ?m"
  let ?j = "\<lparr>Year = 1380, Month = 7, Day = 25, Hour = 10, Minute = 25, Second = 30,
            Nsec = 0, Loc = None\<rparr>"
  note t = ParseInLocation_positional
    [of "''%d-%m-%Y %H:%M:%S''" "''%Y-%m-%d %H:%M:%S''" ?re "''1380-07-25 10:25:30''" None
        "''%d-%m-%Y %H:%M:%S''" ?m ?j]
  have e: "replaceDirectives ''%d-%m-%Y %H:%M:%S'' = replaceDirectives ''%Y-%m-%d %H:%M:%S''"
    using t by blast
  have a: "ParseInLocation ?re ''%d-%m-%Y %H:%M:%S'' ''1380-07-25 10:25:30'' None = Some (?j, None)"
    using t by blast
  have "ParseInLocation ?re ''%d-%m-%Y %H:%M:%S'' ''1380-07-25 10:25:30'' None
      = ParseInLocation ?re ''%Y-%m-%d %H:%M:%S'' ''1380-07-25 10:25:30'' None"
    using t e by blast
  with a show ?thesis by simp
qed

text \<open>
  C10. When the compiled pattern matches with (at least) six groups and the first
  three numbers pass \<open>isValidJalaliDate\<close>, \<open>ParseInLocation\<close> and \<open>Parse\<close> succeed
  without error; hour, minute and second are the numbers of the fourth, fifth and sixth
  group as \<open>strconv.Atoi\<close> reads them, whatever their size (hour 99, minute 75), and
  the nanosecond is 0.
\<close>

theorem ParseInLocation_validates_date_only:
  assumes "regexp (replaceDirectives layout) = Some submatch"
      and "7 \<le> length (submatch val)"
      and "isValidJalaliDate (Atoi (submatch val ! 1)) (Atoi (submatch val ! 2)) (Atoi (submatch val ! 3))"
  shows "ParseInLocation regexp layout val loc =
           Some (\<lparr>Year = Atoi (submatch val ! 1), Month = Atoi (submatch val ! 2),
                  Day = Atoi (submatch val ! 3), Hour = Atoi (submatch val ! 4),
                  Minute = Atoi (submatch val ! 5), Second = Atoi (submatch val ! 6),
                  Nsec = 0, Loc = loc\<rparr>, None)
       \<and> Parse regexp lib layout val =
           Some (\<lparr>Year = Atoi (submatch val ! 1), Month = Atoi (submatch val ! 2),
                  Day = Atoi (submatch val ! 3), Hour = Atoi (submatch val ! 4),
                  Minute = Atoi (submatch val ! 5), Second = Atoi (submatch val ! 6),
                  Nsec = 0, Loc = Some (Local lib)\<rparr>, None)"
  using ParseInLocation_success [of regexp layout submatch val] assms
  by (simp add: Parse_def)

theorem ParseInLocation_validates_date_only_witness:
  "ParseInLocation
     (\<lambda>p. Some (\<lambda>v. [''1400-01-01 99:75:61'', ''1400'', ''01'', ''01'', ''99'', ''75'', ''61'']))
     ''%Y-%m-%d %H:%M:%S'' ''1400-01-01 99:75:61'' None
   = Some (\<lparr>Year = 1400, Month = 1, Day = 1, Hour = 99, Minute = 75, Second = 61,
            Nsec = 0, Loc = None\<rparr>, None)"
  using ParseInLocation_validates_date_only
    [of "\<lambda>p. Some (\<lambda>v. [''1400-01-01 99:75:61'', ''1400'', ''01'', ''01'', ''99'', ''75'', ''61''])"
        "''%Y-%m-%d %H:%M:%S''"
        "\<lambda>v. [''1400-01-01 99:75:61'', ''1400'', ''01'', ''01'', ''99'', ''75'', ''61'']"
        "''1400-01-01 99:75:61''" None]
  by (simp add: Atoi_examples isValid_examples)

section \<open>Properties of formatting\<close>

lemma Format_specifier: "Format lib j [CHR ''%'', d] = formatSpecifier lib j [CHR ''%'', d]"
  by (cases "formatSpecifier lib j [CHR ''%'', d]") (simp_all add: Format.simps)

lemma Format_b:
  "Format lib j ''%b'' =
     (case index FaJalaliMonthName (Month j) of
        None \<Rightarrow> None
      | Some name \<Rightarrow> if length name \<ge> 3 then Some (take 3 name) else Some name)"
  unfolding Format_specifier by (simp add: formatSpecifier_def)

lemma Format_B: "Format lib j ''%B'' = index FaJalaliMonthName (Month j)"
  unfolding Format_specifier by (simp add: formatSpecifier_def)

lemma int_range_cases:
  fixes m :: int
  assumes "1 \<le> m" "m \<le> 12"
  shows "m = 1 \<or> m = 2 \<or> m = 3 \<or> m = 4 \<or> m = 5 \<or> m = 6 \<or> m = 7 \<or> m = 8 \<or> m = 9
         \<or> m = 10 \<or> m = 11 \<or> m = 12"
  using assms by arith

lemma Format_b_every_month:
  assumes "1 \<le> Month j" "Month j \<le> 12"
  shows "\<exists>bytes. Format lib j ''%b'' = Some bytes \<and> length bytes = 3 \<and> utf8Decode bytes = None"
  using int_range_cases [OF assms]
  by (elim disjE) (simp_all add: Format_b index_def FaJalaliMonthName_def continuation_def)

text \<open>
  C8. The claim is that \<open>%b\<close> gives the first three characters of the Persian month
  name that \<open>%B\<close> gives. The source slices the name with \<open>[:3]\<close>, which takes three
  bytes. Every Persian letter of the names is two bytes of UTF-8, so the output is one
  letter and the first byte of the next: for Farvardin \<open>%B\<close> gives 14 bytes, seven
  letters, whose first three letters are the six bytes D9 81 D8 B1 D9 88, and \<open>%b\<close>
  gives the three bytes D9 81 D8, which are not well-formed UTF-8. The lemma above shows
  the same for every month.
\<close>

theorem Format_b_first_three_bytes:
  "Format lib \<lparr>Year = 1402, Month = 1, Day = 1, Hour = 0, Minute = 0, Second = 0, Nsec = 0, Loc = None\<rparr> ''%B''
     = Some [CHR 0xD9, CHR 0x81, CHR 0xD8, CHR 0xB1, CHR 0xD9, CHR 0x88, CHR 0xD8, CHR 0xB1,
             CHR 0xD8, CHR 0xAF, CHR 0xDB, CHR 0x8C, CHR 0xD9, CHR 0x86]
   \<and> utf8Decode [CHR 0xD9, CHR 0x81, CHR 0xD8, CHR 0xB1, CHR 0xD9, CHR 0x88, CHR 0xD8, CHR 0xB1,
             CHR 0xD8, CHR 0xAF, CHR 0xDB, CHR 0x8C, CHR 0xD9, CHR 0x86]
     = Some [1601, 1585, 1608, 1585, 1583, 1740, 1606]
   \<and> utf8Decode [CHR 0xD9, CHR 0x81, CHR 0xD8, CHR 0xB1, CHR 0xD9, CHR 0x88] = Some [1601, 1585, 1608]
   \<and> Format lib \<lparr>Year = 1402, Month = 1, Day = 1, Hour = 0, Minute = 0, Second = 0, Nsec = 0, Loc = None\<rparr> ''%b''
     = Some [CHR 0xD9, CHR 0x81, CHR 0xD8]
   \<and> utf8Decode [CHR 0xD9, CHR 0x81, CHR 0xD8] = None"
  by (simp add: Format_b Format_B index_def FaJalaliMonthName_def continuation_def)

section \<open>Properties of the comparisons\<close>

lemma Before_After_UnixNano:
  assumes "UnixNano lib j = Some a" "UnixNano lib u = Some b"
  shows "Before lib j u = Some (a < b) \<and> After lib j u = Some (b < a)"
  using assms by (simp add: Before_def After_def)

text \<open>
  C9. \<open>Before\<close> and \<open>After\<close> compare the two values of \<open>UnixNano\<close> and nothing else.
  \<open>Equal\<close> compares the seven fields and the names of the zones. So two values with
  the same \<open>UnixNano\<close> whose zones have different names are not \<open>Equal\<close>, and neither
  is \<open>Before\<close> or \<open>After\<close> the other.
\<close>

theorem Equal_Before_After_zone:
  "(UnixNano lib j = Some t \<and> UnixNano lib u = Some t \<and> locString (Loc j) \<noteq> locString (Loc u)
      \<longrightarrow> \<not> Equal j u \<and> Before lib j u = Some False \<and> After lib j u = Some False)
   \<and> (UnixNano lib j = Some a \<and> UnixNano lib u = Some b
      \<longrightarrow> Before lib j u = Some (a < b) \<and> After lib j u = Some (b < a))"
  using Before_After_UnixNano [of lib j t u t] Before_After_UnixNano [of lib j a u b]
  by (auto simp add: Equal_def)

theorem Equal_Before_After_zone_witness:
  "UnixNano exampleLib
     \<lparr>Year = 1400, Month = 1, Day = 1, Hour = 12, Minute = 0, Second = 0, Nsec = 0,
      Loc = Some \<lparr>locName = ''Asia/Tehran'', locRules = [(0, 12600)]\<rparr>\<rparr> = Some 30600000000000
   \<and> UnixNano exampleLib
     \<lparr>Year = 1400, Month = 1, Day = 1, Hour = 12, Minute = 0, Second = 0, Nsec = 0,
      Loc = Some \<lparr>locName = ''Iran'', locRules = [(0, 12600)]\<rparr>\<rparr> = Some 30600000000000
   \<and> \<not> Equal
     \<lparr>Year = 1400, Month = 1, Day = 1, Hour = 12, Minute = 0, Second = 0, Nsec = 0,
      Loc = Some \<lparr>locName = ''Asia/Tehran'', locRules = [(0, 12600)]\<rparr>\<rparr>
     \<lparr>Year = 1400, Month = 1, Day = 1, Hour = 12, Minute = 0, Second = 0, Nsec = 0,
      Loc = Some \<lparr>locName = ''Iran'', locRules = [(0, 12600)]\<rparr>\<rparr>
   \<and> Before exampleLib
     \<lparr>Year = 1400, Month = 1, Day = 1, Hour = 12, Minute = 0, Second = 0, Nsec = 0,
      Loc = Some \<lparr>locName = ''Asia/Tehran'', locRules = [(0, 12600)]\<rparr>\<rparr>
     \<lparr>Year = 1400, Month = 1, Day = 1, Hour = 12, Minute = 0, Second = 0, Nsec = 0,
      Loc = Some \<lparr>locName = ''Iran'', locRules = [(0, 12600)]\<rparr>\<rparr> = Some False
   \<and> After exampleLib
     \<lparr>Year = 1400, Month = 1, Day = 1, Hour = 12, Minute = 0, Second = 0, Nsec = 0,
      Loc = Some \<lparr>locName = ''Asia/Tehran'', locRules = [(0, 12600)]\<rparr>\<rparr>
     \<lparr>Year = 1400, Month = 1, Day = 1, Hour = 12, Minute = 0, Second = 0, Nsec = 0,
      Loc = Some \<lparr>locName = ''Iran'', locRules = [(0, 12600)]\<rparr>\<rparr> = Some False"
proof -
  let ?j = "\<lparr>Year = 1400, Month = 1, Day = 1, Hour = 12, Minute = 0, Second = 0, Nsec = 0,
      Loc = Some \<lparr>locName = ''Asia/Tehran'', locRules = [(0, 12600)]\<rparr>\<rparr>"
  let ?u = "\<lparr>Year = 1400, Month = 1, Day = 1, Hour = 12, Minute = 0, Second = 0, Nsec = 0,
      Loc = Some \<lparr>locName = ''Iran'', locRules = [(0, 12600)]\<rparr>\<rparr>"
  have g: "jalaliToGregorian 1400 1 1 = Some (2021, 3, 21)"
    by code_simp
  have j: "UnixNano exampleLib ?j = Some 30600000000000"
    by (simp add: UnixNano_def ToGregorian_def g exampleLib_def)
  have u: "UnixNano exampleLib ?u = Some 30600000000000"
    by (simp add: UnixNano_def ToGregorian_def g exampleLib_def)
  have n: "locString (Loc ?j) \<noteq> locString (Loc ?u)"
    by (simp add: locString_def)
  show ?thesis
    using Equal_Before_After_zone [of exampleLib ?j 30600000000000 ?u] j u n by blast
qed


end
